theory Spec2Isabelle
  imports Complex_Main "HOL-Library.Multiset"
begin

section \<open>Load penalty of a node (\<^verbatim>\<open>pylav/node.py\<close>)\<close>

text \<open>
  Python numbers are modelled by the reals: \<^verbatim>\<open>a ** b\<close> with a positive base is
  \<open>a powr b\<close>, \<^verbatim>\<open>/\<close> is true division. Rounding and overflow of the machine
  floats are outside this model.

  A stats report is the \<^verbatim>\<open>data\<close> dictionary of \<^verbatim>\<open>Stats.__init__\<close>. The keys that
  the constructor indexes directly are fields; the keys it reads with \<^verbatim>\<open>.get\<close> are
  optional.
\<close>

record frame_stats_data =
  fs_sent :: "real option"
  fs_nulled :: "real option"
  fs_deficit :: "real option"

record memory_data =
  mem_free :: real
  mem_used :: real
  mem_allocated :: real
  mem_reservable :: real

record cpu_data =
  cpu_cores_d :: real
  cpu_systemLoad :: real
  cpu_lavalinkLoad :: real

record stats_data =
  d_uptime :: real
  d_players :: real
  d_playingPlayers :: real
  d_memory :: memory_data
  d_cpu :: cpu_data
  d_frameStats :: "frame_stats_data option"

record Penalty =
  player_penalty :: real
  cpu_penalty :: real
  null_frame_penalty :: real
  deficit_frame_penalty :: real
  total :: real

record Stats_attrs =
  uptime :: real
  players :: real
  playing_players :: real
  memory_free :: real
  memory_used :: real
  memory_allocated :: real
  memory_reservable :: real
  cpu_cores :: real
  system_load :: real
  lavalink_load :: real
  frames_sent :: real
  frames_nulled :: real
  frames_deficit :: real

text \<open>
  A finished \<^verbatim>\<open>Stats\<close> object carries the attribute \<^verbatim>\<open>penalty\<close> as well; while
  \<^verbatim>\<open>Penalty.__init__\<close> runs, the object has the other attributes only.
\<close>

record Stats = Stats_attrs +
  penalty :: Penalty

text \<open>\<^verbatim>\<open>Penalty.__init__\<close>: reads four attributes of the stats object.\<close>

definition Penalty_init :: "'a Stats_attrs_scheme \<Rightarrow> Penalty" where
  "Penalty_init stats =
     (let pp = playing_players stats;
          cpu = 1.05 powr (100 * system_load stats) * 10 - 10;
          nfp = (if frames_nulled stats \<noteq> -1
                 then ((1.03 powr (500 * (frames_nulled stats / 3000))) * 300 - 300) * 2
                 else 0);
          dfp = (if frames_deficit stats \<noteq> -1
                 then (1.03 powr (500 * (frames_deficit stats / 3000))) * 600 - 600
                 else 0)
      in \<lparr> player_penalty = pp, cpu_penalty = cpu, null_frame_penalty = nfp,
           deficit_frame_penalty = dfp, total = pp + cpu + nfp + dfp \<rparr>)"

text \<open>\<^verbatim>\<open>frame_stats.get(key, -1)\<close> on \<^verbatim>\<open>data.get("frameStats", {})\<close>.\<close>

definition frame_get :: "frame_stats_data option \<Rightarrow> (frame_stats_data \<Rightarrow> real option) \<Rightarrow> real" where
  "frame_get fs key = (case fs of None \<Rightarrow> -1
                       | Some f \<Rightarrow> (case key f of None \<Rightarrow> -1 | Some v \<Rightarrow> v))"

text \<open>
  \<^verbatim>\<open>Stats.__init__\<close>: first the attributes read from the report, then the penalty
  computed from the object built so far.
\<close>

definition Stats_fields :: "stats_data \<Rightarrow> Stats_attrs" where
  "Stats_fields data =
     \<lparr> uptime = d_uptime data,
       players = d_players data,
       playing_players = d_playingPlayers data,
       memory_free = mem_free (d_memory data),
       memory_used = mem_used (d_memory data),
       memory_allocated = mem_allocated (d_memory data),
       memory_reservable = mem_reservable (d_memory data),
       cpu_cores = cpu_cores_d (d_cpu data),
       system_load = cpu_systemLoad (d_cpu data),
       lavalink_load = cpu_lavalinkLoad (d_cpu data),
       frames_sent = frame_get (d_frameStats data) fs_sent,
       frames_nulled = frame_get (d_frameStats data) fs_nulled,
       frames_deficit = frame_get (d_frameStats data) fs_deficit \<rparr>"

definition Stats_init :: "stats_data \<Rightarrow> Stats" where
  "Stats_init data =
     (let s = Stats_fields data
      in Stats_attrs.extend s (Stats.fields (Penalty_init s)))"


section \<open>Exceptions\<close>

text \<open>
  The exception classes the modelled code raises or lets through. The module
  \<^verbatim>\<open>pylav.exceptions\<close> declares \<^verbatim>\<open>NodeException\<close>, \<^verbatim>\<open>NoNodeAvailable\<close> and
  \<^verbatim>\<open>Unauthorized\<close> as classes of their own; a value of this type is the class of the
  raised object (with its message where the source gives one). \<open>OtherError\<close> stands for
  a failure raised inside a collaborator (the HTTP session, the voice connection, the
  websocket).
\<close>

datatype error =
    NodeException string
  | NoNodeAvailable string
  | Unauthorized
  | IndexError
  | KeyError
  | TypeError
  | AttributeError
  | ValueError
  | OtherError string

section \<open>Nodes (\<^verbatim>\<open>pylav/node.py\<close>)\<close>

text \<open>
  The websocket of a node. Its class lives in \<^verbatim>\<open>pylav/websocket.py\<close>; the node
  constructs it with the arguments below and reads its \<^verbatim>\<open>connected\<close> property.
\<close>

record WebSocket =
  ws_host :: string
  ws_port :: int
  ws_password :: string
  ws_resume_key :: "string option"
  ws_resume_timeout :: int
  ws_reconnect_attempts :: int
  ws_ssl :: bool
  connected :: bool

record Node =
  ssl :: bool
  port :: int
  host :: string
  password :: string
  region :: string
  name :: string
  resume_key :: "string option"
  resume_timeout :: int
  reconnect_attempts :: int
  search_only :: bool
  stats :: "Stats option"
  ws :: WebSocket

text \<open>Decimal rendering of an integer, as an f-string does it.\<close>

definition digit_char :: "nat \<Rightarrow> char" where
  "digit_char d = char_of (48 + d)"

function str_nat :: "nat \<Rightarrow> string" where
  "str_nat n = (if n < 10 then [digit_char n] else str_nat (n div 10) @ [digit_char (n mod 10)])"
  by pat_completeness auto
termination
  by (relation "measure id") auto

definition str_int :: "int \<Rightarrow> string" where
  "str_int i = (if i < 0 then CHR ''-'' # str_nat (nat (- i)) else str_nat (nat i))"

text \<open>
  \<^verbatim>\<open>Node.__init__\<close>. A fresh websocket is not connected. The references to the manager
  and to the HTTP session are not part of the record.
\<close>

definition Node_init ::
  "string \<Rightarrow> string \<Rightarrow> string \<Rightarrow> string option \<Rightarrow> int \<Rightarrow> int option \<Rightarrow> string option \<Rightarrow>
   int \<Rightarrow> bool \<Rightarrow> bool \<Rightarrow> Node" where
  "Node_init host' password' region' resume_key' resume_timeout' port' name'
      reconnect_attempts' ssl' search_only' =
     (let p = (case port' of None \<Rightarrow> (if ssl' then 443 else 80) | Some q \<Rightarrow> q);
          nm = (case name' of
                  None \<Rightarrow> region' @ ''-'' @ host' @ '':'' @ str_int p
                | Some s \<Rightarrow> (if s = [] then region' @ ''-'' @ host' @ '':'' @ str_int p else s))
      in \<lparr> ssl = ssl', port = p, host = host', password = password', region = region',
           name = nm, resume_key = resume_key', resume_timeout = resume_timeout',
           reconnect_attempts = reconnect_attempts', search_only = search_only',
           stats = None,
           ws = \<lparr> ws_host = host', ws_port = p, ws_password = password',
                  ws_resume_key = resume_key', ws_resume_timeout = resume_timeout',
                  ws_reconnect_attempts = reconnect_attempts', ws_ssl = ssl',
                  connected = False \<rparr> \<rparr>)"

definition connection_protocol :: "Node \<Rightarrow> string" where
  "connection_protocol n = (if ssl n then ''https'' else ''http'')"

definition available :: "Node \<Rightarrow> bool" where
  "available n = connected (ws n)"

text \<open>
  \<^verbatim>\<open>Node.penalty\<close>. A \<^verbatim>\<open>Stats\<close> object defines neither \<^verbatim>\<open>__bool__\<close> nor
  \<^verbatim>\<open>__len__\<close>, so \<^verbatim>\<open>not self.stats\<close> holds exactly when the attribute is \<^verbatim>\<open>None\<close>.
\<close>

definition Node_penalty :: "Node \<Rightarrow> real" where
  "Node_penalty n =
     (if \<not> available n \<or> stats n = None then 9 * 10 ^ 30
      else total (penalty (the (stats n))))"

section \<open>The REST calls of a node\<close>

text \<open>
  Parsed JSON. An object is the association list of the parsed dictionary (keys distinct,
  looked up with \<open>map_of\<close>).
\<close>

datatype json =
    JNull
  | JBool bool
  | JNum real
  | JStr string
  | JArr "json list"
  | JObj "(string \<times> json) list"

text \<open>
  A request as the source builds it, and the response of the session: its status and
  the outcome of \<^verbatim>\<open>await res.json(loads=ujson.loads)\<close>, which raises when the body is
  not JSON. The session is the function \<open>http\<close>, which may itself raise.
\<close>

datatype req_payload = NoPayload | Params "(string \<times> string) list" | JsonBody json

record request =
  req_method :: string
  req_url :: string
  req_authorization :: string
  req_payload :: req_payload

record response =
  status :: int
  json_result :: "error + json"

type_synonym session = "request \<Rightarrow> error + response"

definition destination :: "Node \<Rightarrow> string \<Rightarrow> string" where
  "destination n path = connection_protocol n @ ''://'' @ host n @ '':'' @ str_int (port n) @ path"

text \<open>The four GET requests, as the methods below build them.\<close>

definition loadtracks_request :: "Node \<Rightarrow> string \<Rightarrow> request" where
  "loadtracks_request n query =
     \<lparr> req_method = ''GET'', req_url = destination n ''/loadtracks'',
       req_authorization = password n, req_payload = Params [(''identifier'', query)] \<rparr>"

definition decodetrack_request :: "Node \<Rightarrow> string \<Rightarrow> request" where
  "decodetrack_request n track =
     \<lparr> req_method = ''GET'', req_url = destination n ''/decodetrack'',
       req_authorization = password n, req_payload = Params [(''track'', track)] \<rparr>"

definition decodetracks_request :: "Node \<Rightarrow> string list \<Rightarrow> request" where
  "decodetracks_request n tracks =
     \<lparr> req_method = ''GET'', req_url = destination n ''/decodetracks'',
       req_authorization = password n, req_payload = JsonBody (JArr (map JStr tracks)) \<rparr>"

definition routeplanner_status_request :: "Node \<Rightarrow> request" where
  "routeplanner_status_request n =
     \<lparr> req_method = ''GET'', req_url = destination n ''/routeplanner/status'',
       req_authorization = password n, req_payload = NoPayload \<rparr>"

text \<open>\<^verbatim>\<open>result.get("tracks", [])\<close>: only a dictionary has the method \<^verbatim>\<open>get\<close>.\<close>

definition get_tracks_key :: "json \<Rightarrow> error + json" where
  "get_tracks_key result =
     (case result of
        JObj kvs \<Rightarrow> (case map_of kvs ''tracks'' of None \<Rightarrow> Inr (JArr []) | Some v \<Rightarrow> Inr v)
      | _ \<Rightarrow> Inl AttributeError)"

text \<open>
  \<^verbatim>\<open>v[0]\<close>: a list or a string raises \<^verbatim>\<open>IndexError\<close> when empty, a dictionary has no
  key \<open>0\<close> (JSON keys are strings), the other values are not subscriptable.
\<close>

definition index0 :: "json \<Rightarrow> error + json" where
  "index0 v =
     (case v of
        JArr xs \<Rightarrow> (case xs of [] \<Rightarrow> Inl IndexError | x # _ \<Rightarrow> Inr x)
      | JStr s \<Rightarrow> (case s of [] \<Rightarrow> Inl IndexError | c # _ \<Rightarrow> Inr (JStr [c]))
      | JObj _ \<Rightarrow> Inl KeyError
      | _ \<Rightarrow> Inl TypeError)"

definition Node_get_tracks :: "session \<Rightarrow> Node \<Rightarrow> string \<Rightarrow> bool \<Rightarrow> error + json" where
  "Node_get_tracks http n query first =
     (case http (loadtracks_request n query) of
        Inl e \<Rightarrow> Inl e
      | Inr res \<Rightarrow>
          if status res = 200 then
            (case json_result res of
               Inl e \<Rightarrow> Inl e
             | Inr result \<Rightarrow>
                 if first then
                   (case get_tracks_key result of Inl e \<Rightarrow> Inl e | Inr v \<Rightarrow> index0 v)
                 else Inr result)
          else if status res = 401 \<or> status res = 403 then Inl Unauthorized
          else Inr (JArr []))"

definition Node_decode_track :: "session \<Rightarrow> Node \<Rightarrow> string \<Rightarrow> error + json" where
  "Node_decode_track http n track =
     (case http (decodetrack_request n track) of
        Inl e \<Rightarrow> Inl e
      | Inr res \<Rightarrow>
          if status res = 200 then json_result res
          else if status res = 401 \<or> status res = 403 then Inl Unauthorized
          else Inr JNull)"

definition Node_decode_tracks :: "session \<Rightarrow> Node \<Rightarrow> string list \<Rightarrow> error + json" where
  "Node_decode_tracks http n tracks =
     (case http (decodetracks_request n tracks) of
        Inl e \<Rightarrow> Inl e
      | Inr res \<Rightarrow>
          if status res = 200 then json_result res
          else if status res = 401 \<or> status res = 403 then Inl Unauthorized
          else Inr (JArr []))"

definition Node_routeplanner_status :: "session \<Rightarrow> Node \<Rightarrow> error + json" where
  "Node_routeplanner_status http n =
     (case http (routeplanner_status_request n) of
        Inl e \<Rightarrow> Inl e
      | Inr res \<Rightarrow>
          if status res = 200 then json_result res
          else if status res = 401 \<or> status res = 403 then Inl Unauthorized
          else Inr JNull)"

section \<open>The client facade (\<^verbatim>\<open>pylav/client.py\<close>)\<close>

text \<open>
  What \<^verbatim>\<open>Client.get_tracks\<close> reads from the node manager: the values of its
  properties \<^verbatim>\<open>search_only_nodes\<close> and \<^verbatim>\<open>available_nodes\<close> at the time of the call.
  The class \<^verbatim>\<open>NodeManager\<close> is in \<^verbatim>\<open>pylav/node_manager.py\<close>; the client only
  tests the two collections for emptiness and draws a node from them.
\<close>

record NodeManager =
  search_only_nodes :: "Node list"
  available_nodes :: "Node list"

datatype log_entry =
    Warning string "string list"
  | Info string "string list"
  | Debug string "string list"

text \<open>
  The state of a client that \<^verbatim>\<open>get_tracks\<close> touches: the flag set in
  \<^verbatim>\<open>Client.__init__\<close>, and the records handed to the module's logger.
\<close>

record Client =
  warned_about_no_search_nodes :: bool
  logged :: "log_entry list"

definition Client_init :: Client where
  "Client_init = \<lparr> warned_about_no_search_nodes = False, logged = [] \<rparr>"

definition no_search_nodes_warning :: log_entry where
  "no_search_nodes_warning =
     Warning ''No search only nodes available, defaulting to all available nodes.'' []"

text \<open>
  \<^verbatim>\<open>random.choice(list(nodes))\<close>: the draw is the parameter \<open>r\<close>; every element of a
  non-empty list is the choice for some \<open>r\<close>. An empty sequence raises \<^verbatim>\<open>IndexError\<close>.
\<close>

definition random_choice :: "nat \<Rightarrow> 'a list \<Rightarrow> error + 'a" where
  "random_choice r xs = (if xs = [] then Inl IndexError else Inr (xs ! (r mod length xs)))"

text \<open>
  The first half of \<^verbatim>\<open>Client.get_tracks\<close>: the pool of nodes, and the client after
  the warning.
\<close>

definition select_pool :: "NodeManager \<Rightarrow> Client \<Rightarrow> bool \<Rightarrow> Node list \<times> Client" where
  "select_pool nm c search_only_nodes' =
     (if search_only_nodes' then
        (let nodes = search_only_nodes nm in
         if nodes = [] then
           (available_nodes nm,
            if \<not> warned_about_no_search_nodes c
            then c\<lparr> logged := logged c @ [no_search_nodes_warning],
                    warned_about_no_search_nodes := True \<rparr>
            else c)
         else (nodes, c))
      else (available_nodes nm, c))"

text \<open>
  \<^verbatim>\<open>Client.get_tracks\<close>. A \<^verbatim>\<open>Node\<close> object is always true, so \<^verbatim>\<open>node or ...\<close> draws
  a node exactly when the argument is \<^verbatim>\<open>None\<close>.
\<close>

definition Client_get_tracks ::
  "session \<Rightarrow> nat \<Rightarrow> NodeManager \<Rightarrow> Client \<Rightarrow> string \<Rightarrow> Node option \<Rightarrow> bool \<Rightarrow> bool \<Rightarrow>
   (error + json) \<times> Client" where
  "Client_get_tracks http r nm c query node search_only_nodes' first =
     (let (nodes, c') = select_pool nm c search_only_nodes' in
      if nodes = [] then (Inl (NodeException ''No available nodes!''), c')
      else
        (case (case node of Some n \<Rightarrow> Inr n | None \<Rightarrow> random_choice r nodes) of
           Inl e \<Rightarrow> (Inl e, c')
         | Inr n \<Rightarrow> (Node_get_tracks http n query first, c')))"

definition Client_decode_track ::
  "session \<Rightarrow> nat \<Rightarrow> NodeManager \<Rightarrow> string \<Rightarrow> Node option \<Rightarrow> error + json" where
  "Client_decode_track http r nm track node =
     (if available_nodes nm = [] then Inl (NodeException ''No available nodes!'')
      else
        (case (case node of Some n \<Rightarrow> Inr n | None \<Rightarrow> random_choice r (available_nodes nm)) of
           Inl e \<Rightarrow> Inl e
         | Inr n \<Rightarrow> Node_decode_track http n track))"

definition Client_decode_tracks ::
  "session \<Rightarrow> nat \<Rightarrow> NodeManager \<Rightarrow> string list \<Rightarrow> Node option \<Rightarrow> error + json" where
  "Client_decode_tracks http r nm tracks node =
     (if available_nodes nm = [] then Inl (NodeException ''No available nodes!'')
      else
        (case (case node of Some n \<Rightarrow> Inr n | None \<Rightarrow> random_choice r (available_nodes nm)) of
           Inl e \<Rightarrow> Inl e
         | Inr n \<Rightarrow> Node_decode_tracks http n tracks))"

text \<open>
  A sequence of \<^verbatim>\<open>get_tracks\<close> calls on one client. Each call has its own arguments,
  its own view of the node manager, its own draw and its own answers of the session.
\<close>

record get_tracks_call =
  call_http :: session
  call_draw :: nat
  call_manager :: NodeManager
  call_query :: string
  call_node :: "Node option"
  call_search_only :: bool
  call_first :: bool

definition run_call :: "Client \<Rightarrow> get_tracks_call \<Rightarrow> (error + json) \<times> Client" where
  "run_call c k =
     Client_get_tracks (call_http k) (call_draw k) (call_manager k) c (call_query k)
       (call_node k) (call_search_only k) (call_first k)"

fun run_calls :: "Client \<Rightarrow> get_tracks_call list \<Rightarrow> Client" where
  "run_calls c [] = c"
| "run_calls c (k # ks) = run_calls (snd (run_call c k)) ks"

text \<open>The log holds the warning exactly when the flag is set.\<close>

definition log_matches_flag :: "Client \<Rightarrow> bool" where
  "log_matches_flag c =
     (logged c = (if warned_about_no_search_nodes c then [no_search_nodes_warning] else []))"

section \<open>Event dispatch (\<^verbatim>\<open>Client._dispatch_event\<close>)\<close>











text \<open>
  For the statements. The order in which \<open>picks\<close> lets the elements of a list run (the
  same choice as in \<open>run_tasks\<close>).
\<close>

function run_order :: "nat list \<Rightarrow> 'a list \<Rightarrow> 'a list" where
  "run_order picks xs =
     (if xs = [] then []
      else
        (let i = (case picks of [] \<Rightarrow> 0 | p # _ \<Rightarrow> p mod length xs)
         in xs ! i # run_order (tl picks) (take i xs @ drop (Suc i) xs)))"
  by pat_completeness auto
termination
proof (relation "measure (\<lambda>(picks, xs). length xs)", goal_cases)
  case 1
  show ?case by simp
next
  case (2 picks xs i)
  then have "i < length xs" by (auto split: list.splits)
  then show ?case by simp
qed

declare run_order.simps [simp del]



section \<open>The player manager (\<^verbatim>\<open>pylav/player_manager.py\<close>)\<close>

text \<open>
  Players and nodes are objects: the manager's dictionary holds references to players,
  a player holds a reference to its node (or \<^verbatim>\<open>None\<close>), and the objects live in a heap.
  The class \<^verbatim>\<open>Player\<close> is in \<^verbatim>\<open>pylav/player.py\<close>; the manager reads the attributes
  \<^verbatim>\<open>guild_id\<close>, \<^verbatim>\<open>channel_id\<close> and \<^verbatim>\<open>node\<close> of a player and calls its methods
  \<^verbatim>\<open>move_to\<close> and \<^verbatim>\<open>disconnect\<close>. A \<^verbatim>\<open>Player\<close> object, like a \<^verbatim>\<open>Node\<close> object, is
  always true.
\<close>

type_synonym player_ref = nat
type_synonym node_ref = nat
type_synonym member = "string option"

record VoiceChannel =
  vc_id :: int
  vc_guild_id :: int

record Player =
  guild_id :: int
  channel_id :: int
  node :: "node_ref option"

text \<open>What the manager does to the world outside itself, in the order of the calls.\<close>

datatype effect =
    VoiceConnect VoiceChannel
  | MoveTo player_ref member VoiceChannel bool
  | Send node_ref "(string \<times> string) list"
  | Disconnect player_ref member
  | DispatchEvent node_ref string player_ref member
  | Log log_entry

record PlayerManager =
  pm_players :: "int \<rightharpoonup> player_ref"
  heap :: "player_ref \<Rightarrow> Player"
  node_heap :: "node_ref \<Rightarrow> Node"
  next_ref :: player_ref
  effects :: "effect list"

text \<open>
  The collaborators whose code is in other modules: the two methods of a player (each
  returns the player as it leaves it, or raises), the voice connection of the hosting
  bot, the sending of a payload over a node's websocket, and the node manager's
  \<^verbatim>\<open>get_region\<close> and \<^verbatim>\<open>find_best_node\<close>.
\<close>

record collaborators =
  move_to :: "member \<Rightarrow> VoiceChannel \<Rightarrow> bool \<Rightarrow> Player \<Rightarrow> error + Player"
  disconnect :: "member \<Rightarrow> Player \<Rightarrow> error + Player"
  channel_connect :: "VoiceChannel \<Rightarrow> error option"
  node_send :: "Node \<Rightarrow> (string \<times> string) list \<Rightarrow> error option"
  get_region :: "string option \<Rightarrow> string"
  find_best_node :: "string \<Rightarrow> node_ref option"

definition push :: "effect \<Rightarrow> PlayerManager \<Rightarrow> PlayerManager" where
  "push e m = m\<lparr> effects := effects m @ [e] \<rparr>"

text \<open>
  The last statement of \<^verbatim>\<open>PlayerManager.destroy\<close>: the arguments of the logging call
  are evaluated first, and \<^verbatim>\<open>player.node.name\<close> raises \<^verbatim>\<open>AttributeError\<close> when
  \<^verbatim>\<open>player.node\<close> is \<^verbatim>\<open>None\<close>.
\<close>

definition log_destroyed :: "PlayerManager \<Rightarrow> Player \<Rightarrow> int \<Rightarrow> (error + unit) \<times> PlayerManager" where
  "log_destroyed m player gid =
     (case node player of
        None \<Rightarrow> (Inl AttributeError, m)
      | Some nr \<Rightarrow>
          (Inr (),
           push (Log (Debug ''[NODE-%s] Successfully destroyed player %s''
                        [name (node_heap m nr), str_int gid])) m))"

text \<open>\<^verbatim>\<open>PlayerManager.destroy\<close>.\<close>

definition destroy ::
  "collaborators \<Rightarrow> PlayerManager \<Rightarrow> int \<Rightarrow> member \<Rightarrow> (error + unit) \<times> PlayerManager" where
  "destroy env m gid requester =
     (case pm_players m gid of
        None \<Rightarrow> (Inr (), m)
      | Some r \<Rightarrow>
          (let m1 = m\<lparr> pm_players := (pm_players m)(gid := None) \<rparr>;
               player = heap m1 r
           in case node player of
                None \<Rightarrow> log_destroyed m1 player gid
              | Some nr \<Rightarrow>
                  if available (node_heap m1 nr) then
                    (let payload = [(''op'', ''destroy''), (''guildId'', str_int (guild_id player))];
                         m2 = push (Send nr payload) m1
                     in case node_send env (node_heap m2 nr) payload of
                          Some e \<Rightarrow> (Inl e, m2)
                        | None \<Rightarrow>
                            (let m3 = push (Disconnect r requester) m2
                             in case disconnect env requester player of
                                  Inl e \<Rightarrow> (Inl e, m3)
                                | Inr player' \<Rightarrow>
                                    log_destroyed (m3\<lparr> heap := (heap m3)(r := player') \<rparr>)
                                      player' gid))
                  else log_destroyed m1 player gid))"

text \<open>
  \<^verbatim>\<open>PlayerManager.create\<close>. The new player is the object that the voice connection
  constructs for the channel; \<^verbatim>\<open>post_init\<close> binds it to the node.
\<close>

definition create ::
  "collaborators \<Rightarrow> PlayerManager \<Rightarrow> VoiceChannel \<Rightarrow> string option \<Rightarrow> node_ref option \<Rightarrow> bool \<Rightarrow>
   member \<Rightarrow> (error + player_ref) \<times> PlayerManager" where
  "create env m channel endpoint node' self_deaf requester =
     (case pm_players m (vc_guild_id channel) of
        Some p \<Rightarrow>
          if vc_id channel \<noteq> channel_id (heap m p) then
            (let m1 = push (MoveTo p requester channel self_deaf) m
             in case move_to env requester channel self_deaf (heap m p) of
                  Inl e \<Rightarrow> (Inl e, m1)
                | Inr player' \<Rightarrow> (Inr p, m1\<lparr> heap := (heap m1)(p := player') \<rparr>))
          else (Inr p, m)
      | None \<Rightarrow>
          (let region' = get_region env endpoint;
               best_node = (case node' of Some n \<Rightarrow> Some n | None \<Rightarrow> find_best_node env region')
           in case best_node of
                None \<Rightarrow> (Inl (NoNodeAvailable ''No available nodes!''), m)
              | Some bn \<Rightarrow>
                  (let m1 = push (VoiceConnect channel) m
                   in case channel_connect env channel of
                        Some e \<Rightarrow> (Inl e, m1)
                      | None \<Rightarrow>
                          (let p = next_ref m1;
                               player = \<lparr> guild_id = vc_guild_id channel, channel_id = vc_id channel,
                                          node = Some bn \<rparr>;
                               m2 = push (MoveTo p requester channel self_deaf)
                                      (m1\<lparr> next_ref := Suc p, heap := (heap m1)(p := player) \<rparr>)
                           in case move_to env requester channel self_deaf player of
                                Inl e \<Rightarrow> (Inl e, m2)
                              | Inr player' \<Rightarrow>
                                  (let m3 = push (DispatchEvent bn ''PlayerConnectedEvent'' p requester)
                                              (m2\<lparr> heap := (heap m2)(p := player') \<rparr>);
                                       m4 = m3\<lparr> pm_players :=
                                                  (pm_players m3)(vc_guild_id channel \<mapsto> p) \<rparr>;
                                       m5 = push (Log (Info ''[NODE-%s] Successfully created player for %s''
                                                    [name (node_heap m4 bn),
                                                     str_int (vc_guild_id channel)])) m4
                                   in (Inr p, m5))))))"

section \<open>The reconnect loop of a node's websocket\<close>

text \<open>
  Modelled from the spec: the reconnect loop of the class \<^verbatim>\<open>WebSocket\<close>
  (\<^verbatim>\<open>pylav/websocket.py\<close>), which \<^verbatim>\<open>Node.__init__\<close> constructs with the node's
  \<^verbatim>\<open>reconnect_attempts\<close>. In the spec's words: the session retries the connect step,
  bounded by \<open>reconnect_attempts\<close> (a configured cap; a sentinel value, \<open>-1\<close> in the
  documentation of \<^verbatim>\<open>Client.add_node\<close>, means unlimited retries); a successful
  handshake makes the session connected and resets the attempt counter to zero;
  exhausting the attempts makes the session disconnected for good and emits a
  node-disconnected event.

  \<open>handshake k\<close> tells whether the connect step number \<open>k\<close> (counted from \<open>0\<close> over the
  life of the session) succeeds. With unlimited retries and no success the loop does not
  return, and the result is \<open>None\<close>.
\<close>

datatype session_status = Disconnected | Connecting | Connected | Resuming | Reconnecting

record NodeSession =
  session_status :: session_status
  terminal :: bool
  attempts :: nat
  connect_steps :: nat
  emitted :: "string list"

partial_function (option) reconnect_loop ::
  "(nat \<Rightarrow> bool) \<Rightarrow> int \<Rightarrow> NodeSession \<Rightarrow> NodeSession option" where
  "reconnect_loop handshake cap s =
     (if cap \<noteq> -1 \<and> cap \<le> int (attempts s) then
        Some (s\<lparr> session_status := Disconnected, terminal := True,
                 emitted := emitted s @ [''NodeDisconnected''] \<rparr>)
      else if handshake (connect_steps s) then
        Some (s\<lparr> session_status := Connected, attempts := 0,
                 connect_steps := Suc (connect_steps s),
                 emitted := emitted s @ [''NodeConnected''] \<rparr>)
      else
        reconnect_loop handshake cap
          (s\<lparr> session_status := Reconnecting, attempts := Suc (attempts s),
               connect_steps := Suc (connect_steps s) \<rparr>))"

text \<open>The session of a node whose connection has just been lost.\<close>

definition lost_session :: "nat \<Rightarrow> string list \<Rightarrow> NodeSession" where
  "lost_session steps evs =
     \<lparr> session_status = Disconnected, terminal = False, attempts = 0,
       connect_steps = steps, emitted = evs \<rparr>"

section \<open>Example objects\<close>

definition example_node :: Node where
  "example_node =
     Node_init ''lava.example'' ''youshallnotpass'' ''eu'' None 60 (Some 2333) None 3 False False"

definition connect_node :: "Node \<Rightarrow> Node" where
  "connect_node n = n\<lparr> ws := (ws n)\<lparr> connected := True \<rparr> \<rparr>"

definition example_report :: "real \<Rightarrow> stats_data" where
  "example_report playing =
     \<lparr> d_uptime = 1000, d_players = playing, d_playingPlayers = playing,
       d_memory = \<lparr> mem_free = 1, mem_used = 2, mem_allocated = 3, mem_reservable = 4 \<rparr>,
       d_cpu = \<lparr> cpu_cores_d = 4, cpu_systemLoad = 0, cpu_lavalinkLoad = 0 \<rparr>,
       d_frameStats = None \<rparr>"

definition answer :: "int \<Rightarrow> json \<Rightarrow> session" where
  "answer st body = (\<lambda>_. Inr \<lparr> status = st, json_result = Inr body \<rparr>)"

definition second_node :: Node where
  "second_node =
     Node_init ''lava2.example'' ''youshallnotpass'' ''us'' None 60 None None 3 True False"

definition no_nodes :: NodeManager where
  "no_nodes = \<lparr> search_only_nodes = [], available_nodes = [] \<rparr>"

definition example_fallback_call :: get_tracks_call where
  "example_fallback_call =
     \<lparr> call_http = answer 200 (JObj [(''tracks'', JArr [JStr ''a''])]),
       call_draw = 1,
       call_manager = \<lparr> search_only_nodes = [],
                        available_nodes = [connect_node example_node, connect_node second_node] \<rparr>,
       call_query = ''query'', call_node = None, call_search_only = True, call_first = False \<rparr>"






definition lounge :: VoiceChannel where
  "lounge = \<lparr> vc_id = 11, vc_guild_id = 7 \<rparr>"

definition stage :: VoiceChannel where
  "stage = \<lparr> vc_id = 12, vc_guild_id = 7 \<rparr>"

definition example_collaborators :: collaborators where
  "example_collaborators =
     \<lparr> move_to = (\<lambda>requester channel self_deaf p. Inr (p\<lparr> channel_id := vc_id channel \<rparr>)),
       disconnect = (\<lambda>requester p. Inr p),
       channel_connect = (\<lambda>channel. None),
       node_send = (\<lambda>n payload. None),
       get_region = (\<lambda>endpoint. ''eu''),
       find_best_node = (\<lambda>region'. Some 0) \<rparr>"

text \<open>A manager with one player, for guild 7 in the channel 11, bound to the given node.\<close>

definition one_player :: "node_ref option \<Rightarrow> PlayerManager" where
  "one_player bound =
     \<lparr> pm_players = [7 \<mapsto> 0],
       heap = (\<lambda>_. \<lparr> guild_id = 7, channel_id = 11, node = bound \<rparr>),
       node_heap = (\<lambda>_. connect_node example_node),
       next_ref = 1,
       effects = [] \<rparr>"

text \<open>
  A call for search-only nodes when no node at all is available, a node that is in no
  pool and not connected, a session that answers every request with its URL, and a
  search-only call that passes the stray node while two general nodes are available.
\<close>

definition empty_pools_call :: get_tracks_call where
  "empty_pools_call =
     \<lparr> call_http = answer 200 JNull, call_draw = 0, call_manager = no_nodes,
       call_query = ''query'', call_node = None, call_search_only = True, call_first = False \<rparr>"

definition stray_node :: Node where
  "stray_node =
     Node_init ''stray.example'' ''youshallnotpass'' ''asia'' None 60 None None 3 False False"

definition echo_url :: session where
  "echo_url = (\<lambda>rq. Inr \<lparr> status = 200, json_result = Inr (JStr (req_url rq)) \<rparr>)"

definition stray_node_call :: get_tracks_call where
  "stray_node_call =
     \<lparr> call_http = echo_url, call_draw = 0,
       call_manager = \<lparr> search_only_nodes = [],
                        available_nodes = [connect_node example_node, connect_node second_node] \<rparr>,
       call_query = ''query'', call_node = Some stray_node, call_search_only = True,
       call_first = False \<rparr>"

section \<open>Theorems\<close>

text \<open>
  C1. For every stats snapshot whose \<open>frames_nulled\<close> and \<open>frames_deficit\<close> are both
  \<open>-1\<close>, the penalty has null-frame and deficit-frame components \<open>0\<close> and its total is
  the number of playing players plus the cpu penalty
  \<open>1.05 powr (100 * system_load) * 10 - 10\<close>. A stats report without a
  \<^verbatim>\<open>frameStats\<close> block yields \<open>-1\<close> for both counters and so satisfies the equation.
\<close>

theorem penalty_without_frame_stats:
  "(frames_nulled s = -1 \<and> frames_deficit s = -1 \<longrightarrow>
      null_frame_penalty (Penalty_init s) = 0 \<and>
      deficit_frame_penalty (Penalty_init s) = 0 \<and>
      cpu_penalty (Penalty_init s) = 1.05 powr (100 * system_load s) * 10 - 10 \<and>
      total (Penalty_init s) = playing_players s + cpu_penalty (Penalty_init s))
   \<and> (d_frameStats data = None \<longrightarrow>
      frames_nulled (Stats_init data) = -1 \<and>
      frames_deficit (Stats_init data) = -1 \<and>
      total (penalty (Stats_init data)) =
        d_playingPlayers data + (1.05 powr (100 * cpu_systemLoad (d_cpu data)) * 10 - 10))"
  by (simp add: Penalty_init_def Stats_init_def Stats_fields_def frame_get_def Let_def
      Stats_attrs.defs Stats.defs)

theorem penalty_without_frame_stats_witness:
  "total (penalty (Stats_init
      \<lparr> d_uptime = 1000, d_players = 3, d_playingPlayers = 2,
        d_memory = \<lparr> mem_free = 1, mem_used = 2, mem_allocated = 3, mem_reservable = 4 \<rparr>,
        d_cpu = \<lparr> cpu_cores_d = 4, cpu_systemLoad = 0, cpu_lavalinkLoad = 0 \<rparr>,
        d_frameStats = None \<rparr>)) = 2"
  using penalty_without_frame_stats
    [of "Stats_init
      \<lparr> d_uptime = 1000, d_players = 3, d_playingPlayers = 2,
        d_memory = \<lparr> mem_free = 1, mem_used = 2, mem_allocated = 3, mem_reservable = 4 \<rparr>,
        d_cpu = \<lparr> cpu_cores_d = 4, cpu_systemLoad = 0, cpu_lavalinkLoad = 0 \<rparr>,
        d_frameStats = None \<rparr>"
     "\<lparr> d_uptime = 1000, d_players = 3, d_playingPlayers = 2,
        d_memory = \<lparr> mem_free = 1, mem_used = 2, mem_allocated = 3, mem_reservable = 4 \<rparr>,
        d_cpu = \<lparr> cpu_cores_d = 4, cpu_systemLoad = 0, cpu_lavalinkLoad = 0 \<rparr>,
        d_frameStats = None \<rparr>"]
  by simp

text \<open>Numeric bounds used for the size of a penalty total.\<close>

lemma pow103_500: "(1.03::real) powr 500 \<le> 4000000"
proof -
  have a: "(1.03::real) ^ 10 \<le> 1.35" by (simp add: power_divide)
  have "((1.03::real) ^ 10) ^ 5 \<le> 1.35 ^ 5" by (rule power_mono [OF a]) simp
  also have "(1.35::real) ^ 5 \<le> 4.5" by (simp add: power_divide)
  finally have b: "((1.03::real) ^ 10) ^ 5 \<le> 4.5" .
  have "(((1.03::real) ^ 10) ^ 5) ^ 10 \<le> 4.5 ^ 10" by (rule power_mono [OF b]) simp
  also have "(4.5::real) ^ 10 \<le> 4000000" by (simp add: power_divide)
  finally have c: "(((1.03::real) ^ 10) ^ 5) ^ 10 \<le> 4000000" .
  have "(500::nat) = 10 * 5 * 10" by simp
  then have "(1.03::real) ^ 500 = ((1.03 ^ 10) ^ 5) ^ 10" by (simp only: power_mult)
  moreover have "(1.03::real) powr 500 = 1.03 ^ 500"
    using powr_realpow [of "1.03::real" 500] by simp
  ultimately show ?thesis using c by simp
qed

lemma Penalty_total_bound:
  assumes "playing_players s \<le> 10 ^ 30" "system_load s \<le> 1"
    "frames_nulled s \<le> 3000" "frames_deficit s \<le> 3000"
  shows "total (Penalty_init s) < 9 * 10 ^ 30"
proof -
  have cpu: "(1.05::real) powr (100 * system_load s) \<le> 132"
  proof -
    have "(1.05::real) powr (100 * system_load s) \<le> 1.05 powr 100"
      using assms(2) by (intro powr_mono) simp_all
    also have "\<dots> \<le> 132"
      using powr_realpow [of "1.05::real" 100] by (simp add: power_divide)
    finally show ?thesis .
  qed
  have nul: "(1.03::real) powr (500 * (frames_nulled s / 3000)) \<le> 4000000"
  proof -
    have "(1.03::real) powr (500 * (frames_nulled s / 3000)) \<le> 1.03 powr 500"
      using assms(3) by (intro powr_mono) simp_all
    also note pow103_500
    finally show ?thesis .
  qed
  have dfc: "(1.03::real) powr (500 * (frames_deficit s / 3000)) \<le> 4000000"
  proof -
    have "(1.03::real) powr (500 * (frames_deficit s / 3000)) \<le> 1.03 powr 500"
      using assms(4) by (intro powr_mono) simp_all
    also note pow103_500
    finally show ?thesis .
  qed
  show ?thesis
    using assms(1) cpu nul dfc by (simp add: Penalty_init_def Let_def)
qed

lemma penalty_Stats_init: "penalty (Stats_init d) = Penalty_init (Stats_fields d)"
  by (simp add: Stats_init_def Let_def Stats_attrs.defs Stats.defs)

lemma attrs_Stats_init:
  "playing_players (Stats_init d) = playing_players (Stats_fields d)"
  "system_load (Stats_init d) = system_load (Stats_fields d)"
  "frames_nulled (Stats_init d) = frames_nulled (Stats_fields d)"
  "frames_deficit (Stats_init d) = frames_deficit (Stats_fields d)"
  by (simp_all add: Stats_init_def Let_def Stats_attrs.defs Stats.defs)

lemma example_report_total: "total (penalty (Stats_init (example_report p))) = p"
  by (simp add: penalty_Stats_init Penalty_init_def Stats_fields_def example_report_def
      frame_get_def Let_def)

text \<open>
  C2 (as amended). Reading the penalty of a node that is not available, or that has no
  stats yet, gives the sentinel \<open>9e30\<close>. The function returns a number in every case.
  The sentinel is larger than the total of every stats object whose playing-player
  count is at most \<open>10 ^ 30\<close>, whose system load is at most \<open>1\<close> and whose nulled and
  deficit frame counters are at most \<open>3000\<close>. An available node with stats gives the
  total of the penalty of its stats.
\<close>

theorem node_penalty_cases:
  "(\<not> available n \<or> stats n = None \<longrightarrow> Node_penalty n = 9 * 10 ^ 30)
   \<and> (available n \<and> stats n = Some s \<longrightarrow> Node_penalty n = total (penalty s))
   \<and> (playing_players (Stats_init d) \<le> 10 ^ 30 \<and> system_load (Stats_init d) \<le> 1 \<and>
      frames_nulled (Stats_init d) \<le> 3000 \<and> frames_deficit (Stats_init d) \<le> 3000 \<longrightarrow>
        total (penalty (Stats_init d)) < 9 * 10 ^ 30)"
proof (intro conjI impI)
  assume "\<not> available n \<or> stats n = None"
  then show "Node_penalty n = 9 * 10 ^ 30" by (auto simp: Node_penalty_def)
next
  assume "available n \<and> stats n = Some s"
  then show "Node_penalty n = total (penalty s)" by (simp add: Node_penalty_def)
next
  assume "playing_players (Stats_init d) \<le> 10 ^ 30 \<and> system_load (Stats_init d) \<le> 1 \<and>
      frames_nulled (Stats_init d) \<le> 3000 \<and> frames_deficit (Stats_init d) \<le> 3000"
  then show "total (penalty (Stats_init d)) < 9 * 10 ^ 30"
    unfolding penalty_Stats_init attrs_Stats_init by (intro Penalty_total_bound) simp_all
qed

theorem node_penalty_cases_witness:
  "Node_penalty example_node = 9 * 10 ^ 30
   \<and> Node_penalty ((connect_node example_node)\<lparr> stats := Some (Stats_init (example_report 3)) \<rparr>) = 3
   \<and> total (penalty (Stats_init (example_report 3))) < 9 * 10 ^ 30"
proof -
  let ?d = "example_report 3"
  let ?n = "(connect_node example_node)\<lparr> stats := Some (Stats_init ?d) \<rparr>"
  have h1: "\<not> available example_node \<or> stats example_node = None"
    by (simp add: example_node_def Node_init_def)
  have h2: "available ?n \<and> stats ?n = Some (Stats_init ?d)"
    by (simp add: available_def connect_node_def)
  have h3: "playing_players (Stats_init ?d) \<le> 10 ^ 30 \<and> system_load (Stats_init ?d) \<le> 1 \<and>
      frames_nulled (Stats_init ?d) \<le> 3000 \<and> frames_deficit (Stats_init ?d) \<le> 3000"
    by (simp add: attrs_Stats_init Stats_fields_def example_report_def frame_get_def)
  have "Node_penalty example_node = 9 * 10 ^ 30"
    using node_penalty_cases [of example_node "Stats_init ?d" ?d] h1 by blast
  moreover have "Node_penalty ?n = total (penalty (Stats_init ?d))"
    using node_penalty_cases [of ?n "Stats_init ?d" ?d] h2 by blast
  moreover have "total (penalty (Stats_init ?d)) < 9 * 10 ^ 30"
    using node_penalty_cases [of ?n "Stats_init ?d" ?d] h3 by blast
  ultimately show ?thesis by (simp add: example_report_total)
qed

text \<open>
  The sentinel is not larger than every total: a connected node whose report counts
  \<open>10 ^ 31\<close> playing players has a larger penalty.
\<close>

theorem sentinel_below_some_total:
  "9 * 10 ^ 30 <
     Node_penalty ((connect_node example_node)\<lparr> stats := Some (Stats_init (example_report (10 ^ 31))) \<rparr>)"
  by (simp add: Node_penalty_def available_def connect_node_def example_report_total)

text \<open>
  C7 (as amended). For each of the four GET calls of a node, when the session answers:
  a status 401 or 403 raises \<open>Unauthorized\<close>; a status 200 returns the parsed JSON
  result, except that \<open>get_tracks\<close> with \<open>first\<close> set returns the first element of the
  result's non-empty \<open>tracks\<close> list; every other status returns the empty list
  (\<open>get_tracks\<close>, \<open>decode_tracks\<close>) or \<open>None\<close> (\<open>decode_track\<close>,
  \<open>routeplanner_status\<close>) and raises nothing.
\<close>

theorem rest_status_handling:
  "(http (loadtracks_request n q) = Inr res \<longrightarrow>
      (status res = 401 \<or> status res = 403 \<longrightarrow> Node_get_tracks http n q first = Inl Unauthorized) \<and>
      (status res = 200 \<and> \<not> first \<longrightarrow> Node_get_tracks http n q first = json_result res) \<and>
      (status res = 200 \<and> first \<and> json_result res = Inr (JObj kvs) \<and>
       map_of kvs ''tracks'' = Some (JArr (t # ts)) \<longrightarrow> Node_get_tracks http n q first = Inr t) \<and>
      (status res \<noteq> 200 \<and> status res \<noteq> 401 \<and> status res \<noteq> 403 \<longrightarrow>
         Node_get_tracks http n q first = Inr (JArr [])))
   \<and> (http (decodetrack_request n tr) = Inr res \<longrightarrow>
      (status res = 401 \<or> status res = 403 \<longrightarrow> Node_decode_track http n tr = Inl Unauthorized) \<and>
      (status res = 200 \<longrightarrow> Node_decode_track http n tr = json_result res) \<and>
      (status res \<noteq> 200 \<and> status res \<noteq> 401 \<and> status res \<noteq> 403 \<longrightarrow>
         Node_decode_track http n tr = Inr JNull))
   \<and> (http (decodetracks_request n trs) = Inr res \<longrightarrow>
      (status res = 401 \<or> status res = 403 \<longrightarrow> Node_decode_tracks http n trs = Inl Unauthorized) \<and>
      (status res = 200 \<longrightarrow> Node_decode_tracks http n trs = json_result res) \<and>
      (status res \<noteq> 200 \<and> status res \<noteq> 401 \<and> status res \<noteq> 403 \<longrightarrow>
         Node_decode_tracks http n trs = Inr (JArr [])))
   \<and> (http (routeplanner_status_request n) = Inr res \<longrightarrow>
      (status res = 401 \<or> status res = 403 \<longrightarrow> Node_routeplanner_status http n = Inl Unauthorized) \<and>
      (status res = 200 \<longrightarrow> Node_routeplanner_status http n = json_result res) \<and>
      (status res \<noteq> 200 \<and> status res \<noteq> 401 \<and> status res \<noteq> 403 \<longrightarrow>
         Node_routeplanner_status http n = Inr JNull))"
proof (intro conjI)
  show "http (loadtracks_request n q) = Inr res \<longrightarrow>
      (status res = 401 \<or> status res = 403 \<longrightarrow> Node_get_tracks http n q first = Inl Unauthorized) \<and>
      (status res = 200 \<and> \<not> first \<longrightarrow> Node_get_tracks http n q first = json_result res) \<and>
      (status res = 200 \<and> first \<and> json_result res = Inr (JObj kvs) \<and>
       map_of kvs ''tracks'' = Some (JArr (t # ts)) \<longrightarrow> Node_get_tracks http n q first = Inr t) \<and>
      (status res \<noteq> 200 \<and> status res \<noteq> 401 \<and> status res \<noteq> 403 \<longrightarrow>
         Node_get_tracks http n q first = Inr (JArr []))"
    by (auto simp: Node_get_tracks_def get_tracks_key_def index0_def split: sum.splits)
  show "http (decodetrack_request n tr) = Inr res \<longrightarrow>
      (status res = 401 \<or> status res = 403 \<longrightarrow> Node_decode_track http n tr = Inl Unauthorized) \<and>
      (status res = 200 \<longrightarrow> Node_decode_track http n tr = json_result res) \<and>
      (status res \<noteq> 200 \<and> status res \<noteq> 401 \<and> status res \<noteq> 403 \<longrightarrow>
         Node_decode_track http n tr = Inr JNull)"
    by (auto simp: Node_decode_track_def)
  show "http (decodetracks_request n trs) = Inr res \<longrightarrow>
      (status res = 401 \<or> status res = 403 \<longrightarrow> Node_decode_tracks http n trs = Inl Unauthorized) \<and>
      (status res = 200 \<longrightarrow> Node_decode_tracks http n trs = json_result res) \<and>
      (status res \<noteq> 200 \<and> status res \<noteq> 401 \<and> status res \<noteq> 403 \<longrightarrow>
         Node_decode_tracks http n trs = Inr (JArr []))"
    by (auto simp: Node_decode_tracks_def)
  show "http (routeplanner_status_request n) = Inr res \<longrightarrow>
      (status res = 401 \<or> status res = 403 \<longrightarrow> Node_routeplanner_status http n = Inl Unauthorized) \<and>
      (status res = 200 \<longrightarrow> Node_routeplanner_status http n = json_result res) \<and>
      (status res \<noteq> 200 \<and> status res \<noteq> 401 \<and> status res \<noteq> 403 \<longrightarrow>
         Node_routeplanner_status http n = Inr JNull)"
    by (auto simp: Node_routeplanner_status_def)
qed

theorem rest_status_handling_witness:
  "Node_get_tracks (answer 403 JNull) example_node ''song'' False = Inl Unauthorized
   \<and> Node_decode_track (answer 200 (JStr ''info'')) example_node ''QAAA'' = Inr (JStr ''info'')
   \<and> Node_decode_tracks (answer 500 JNull) example_node [''QAAA''] = Inr (JArr [])
   \<and> Node_routeplanner_status (answer 404 JNull) example_node = Inr JNull
   \<and> Node_get_tracks (answer 200 (JObj [(''tracks'', JArr [JStr ''a'', JStr ''b''])]))
        example_node ''song'' True = Inr (JStr ''a'')"
proof -
  have "Node_get_tracks (answer 403 JNull) example_node ''song'' False = Inl Unauthorized"
    using rest_status_handling [of "answer 403 JNull" example_node "''song''"
        "\<lparr> status = 403, json_result = Inr JNull \<rparr>" False]
    by (simp add: answer_def)
  moreover have "Node_decode_track (answer 200 (JStr ''info'')) example_node ''QAAA'' = Inr (JStr ''info'')"
    using rest_status_handling [of "answer 200 (JStr ''info'')" example_node _
        "\<lparr> status = 200, json_result = Inr (JStr ''info'') \<rparr>" _ _ _ _ "''QAAA''"]
    by (simp add: answer_def)
  moreover have "Node_decode_tracks (answer 500 JNull) example_node [''QAAA''] = Inr (JArr [])"
    using rest_status_handling [of "answer 500 JNull" example_node _
        "\<lparr> status = 500, json_result = Inr JNull \<rparr>" _ _ _ _ _ "[''QAAA'']"]
    by (simp add: answer_def)
  moreover have "Node_routeplanner_status (answer 404 JNull) example_node = Inr JNull"
    using rest_status_handling [of "answer 404 JNull" example_node _
        "\<lparr> status = 404, json_result = Inr JNull \<rparr>"]
    by (simp add: answer_def)
  moreover have "Node_get_tracks (answer 200 (JObj [(''tracks'', JArr [JStr ''a'', JStr ''b''])]))
        example_node ''song'' True = Inr (JStr ''a'')"
    using rest_status_handling [of "answer 200 (JObj [(''tracks'', JArr [JStr ''a'', JStr ''b''])])"
        example_node "''song''"
        "\<lparr> status = 200, json_result = Inr (JObj [(''tracks'', JArr [JStr ''a'', JStr ''b''])]) \<rparr>"
        True "[(''tracks'', JArr [JStr ''a'', JStr ''b''])]" "JStr ''a''" "[JStr ''b'']"]
    by (simp add: answer_def)
  ultimately show ?thesis by blast
qed

text \<open>
  With status 200 and \<open>first\<close> set, \<open>get_tracks\<close> does not return the parsed result:
  for a result with two tracks it returns the first track.
\<close>

theorem get_tracks_first_not_parsed_result:
  "Node_get_tracks (answer 200 (JObj [(''tracks'', JArr [JStr ''a'', JStr ''b''])]))
     example_node ''song'' True
   \<noteq> Inr (JObj [(''tracks'', JArr [JStr ''a'', JStr ''b''])])"
  by (simp add: Node_get_tracks_def answer_def get_tracks_key_def index0_def)

text \<open>
  C9. \<open>get_tracks\<close> with \<open>first\<close> set raises \<open>IndexError\<close> when the response has status
  200 and the parsed body is an object whose \<open>tracks\<close> list is empty (or absent, which
  \<open>get\<close> replaces by the empty list), where the same response without \<open>first\<close> returns
  the parsed body: the first-track path is not total over empty track lists. The
  client's \<open>get_tracks\<close> passes the exception on to its caller.
\<close>

theorem get_tracks_first_empty_raises:
  "http (loadtracks_request n q) = Inr res \<and> status res = 200 \<and>
   json_result res = Inr (JObj kvs) \<and>
   (map_of kvs ''tracks'' = Some (JArr []) \<or> map_of kvs ''tracks'' = None) \<longrightarrow>
     Node_get_tracks http n q True = Inl IndexError \<and>
     Node_get_tracks http n q False = Inr (JObj kvs) \<and>
     (available_nodes nm \<noteq> [] \<longrightarrow>
        fst (Client_get_tracks http r nm c q (Some n) False True) = Inl IndexError)"
  by (auto simp: Node_get_tracks_def get_tracks_key_def index0_def Client_get_tracks_def
      select_pool_def)

theorem get_tracks_first_empty_raises_witness:
  "Node_get_tracks (answer 200 (JObj [(''loadType'', JStr ''NO_MATCHES''), (''tracks'', JArr [])]))
     example_node ''nothing'' True = Inl IndexError"
  using get_tracks_first_empty_raises
    [of "answer 200 (JObj [(''loadType'', JStr ''NO_MATCHES''), (''tracks'', JArr [])])"
      example_node "''nothing''"
      "\<lparr> status = 200,
         json_result = Inr (JObj [(''loadType'', JStr ''NO_MATCHES''), (''tracks'', JArr [])]) \<rparr>"
      "[(''loadType'', JStr ''NO_MATCHES''), (''tracks'', JArr [])]" no_nodes]
  by (simp add: answer_def)

text \<open>What one call does to the flag and to the log.\<close>

lemma select_pool_client:
  "snd (select_pool nm c so) =
     (if so \<and> search_only_nodes nm = [] \<and> \<not> warned_about_no_search_nodes c
      then c\<lparr> logged := logged c @ [no_search_nodes_warning],
              warned_about_no_search_nodes := True \<rparr>
      else c)"
  by (simp add: select_pool_def Let_def)

lemma snd_Client_get_tracks:
  "snd (Client_get_tracks http r nm c q nd so first) = snd (select_pool nm c so)"
  by (simp add: Client_get_tracks_def split_beta Let_def random_choice_def
      split: option.splits sum.splits)

lemma snd_run_call:
  "snd (run_call c k) =
     (if call_search_only k \<and> search_only_nodes (call_manager k) = [] \<and>
         \<not> warned_about_no_search_nodes c
      then c\<lparr> logged := logged c @ [no_search_nodes_warning],
              warned_about_no_search_nodes := True \<rparr>
      else c)"
  by (simp add: run_call_def snd_Client_get_tracks select_pool_client)

lemma run_call_log_matches_flag:
  "log_matches_flag c \<Longrightarrow> log_matches_flag (snd (run_call c k))"
  by (simp add: snd_run_call log_matches_flag_def)

lemma run_calls_log_matches_flag:
  "log_matches_flag c \<Longrightarrow> log_matches_flag (run_calls c ks)"
  by (induction ks arbitrary: c) (simp_all add: run_call_log_matches_flag)

lemma run_call_keeps_flag:
  "warned_about_no_search_nodes c \<Longrightarrow> warned_about_no_search_nodes (snd (run_call c k))"
  by (simp add: snd_run_call)

lemma run_calls_keeps_flag:
  "warned_about_no_search_nodes c \<Longrightarrow> warned_about_no_search_nodes (run_calls c ks)"
  by (induction ks arbitrary: c) (simp_all add: run_call_keeps_flag)

lemma run_calls_sets_flag:
  "\<exists>k \<in> set ks. call_search_only k \<and> search_only_nodes (call_manager k) = [] \<Longrightarrow>
   warned_about_no_search_nodes (run_calls c ks)"
proof (induction ks arbitrary: c)
  case Nil
  then show ?case by simp
next
  case (Cons k ks)
  show ?case
  proof (cases "call_search_only k \<and> search_only_nodes (call_manager k) = []")
    case True
    then have "warned_about_no_search_nodes (snd (run_call c k))"
      by (simp add: snd_run_call)
    then show ?thesis by (simp add: run_calls_keeps_flag)
  next
    case False
    with Cons.prems have "\<exists>k \<in> set ks. call_search_only k \<and> search_only_nodes (call_manager k) = []"
      by auto
    then show ?thesis by (simp add: Cons.IH)
  qed
qed

lemma run_calls_append: "run_calls c (xs @ ys) = run_calls (run_calls c xs) ys"
  by (induction xs arbitrary: c) simp_all

lemma run_calls_without_warning:
  "\<forall>k \<in> set ks. \<not> (call_search_only k \<and> search_only_nodes (call_manager k) = []) \<Longrightarrow>
   run_calls c ks = c"
  by (induction ks arbitrary: c) (auto simp: snd_run_call)

lemma logged_run_calls:
  "logged (run_calls Client_init ks) =
     (if \<exists>k \<in> set ks. call_search_only k \<and> search_only_nodes (call_manager k) = []
      then [no_search_nodes_warning] else [])"
proof (cases "\<exists>k \<in> set ks. call_search_only k \<and> search_only_nodes (call_manager k) = []")
  case True
  have "log_matches_flag (run_calls Client_init ks)"
    by (rule run_calls_log_matches_flag) (simp add: log_matches_flag_def Client_init_def)
  moreover have "warned_about_no_search_nodes (run_calls Client_init ks)"
    using True by (rule run_calls_sets_flag)
  ultimately show ?thesis using True by (simp add: log_matches_flag_def)
next
  case False
  then have "run_calls Client_init ks = Client_init"
    by (intro run_calls_without_warning) blast
  with False show ?thesis by (simp add: Client_init_def)
qed

text \<open>
  C4 (as amended). A call of \<open>get_tracks\<close> for search-only nodes, when there is none
  but some node is available, forwards the query to a node drawn from the available
  nodes and returns what that node's \<open>get_tracks\<close> returns, provided no node is passed;
  a node that is passed is asked instead. A call logs the warning exactly when it asks
  for search-only nodes, finds none, and the client object has not warned before,
  whether or not a node is available; it leaves the flag set. So over every sequence
  of calls on one new client object the warning is logged at most once: by the first
  call that asks for search-only nodes and finds none, and by no call before or after
  it.
\<close>

theorem no_search_nodes_warning_once:
  "(call_search_only k \<and> search_only_nodes (call_manager k) = [] \<and>
    available_nodes (call_manager k) \<noteq> [] \<longrightarrow>
      (call_node k = None \<longrightarrow>
         available_nodes (call_manager k) ! (call_draw k mod length (available_nodes (call_manager k)))
           \<in> set (available_nodes (call_manager k)) \<and>
         fst (run_call c k) =
           Node_get_tracks (call_http k)
             (available_nodes (call_manager k) !
                (call_draw k mod length (available_nodes (call_manager k))))
             (call_query k) (call_first k)) \<and>
      (call_node k = Some n' \<longrightarrow>
         fst (run_call c k) = Node_get_tracks (call_http k) n' (call_query k) (call_first k)))
   \<and> logged (snd (run_call c k)) =
        (if call_search_only k \<and> search_only_nodes (call_manager k) = [] \<and>
            \<not> warned_about_no_search_nodes c
         then logged c @ [no_search_nodes_warning] else logged c)
   \<and> warned_about_no_search_nodes (snd (run_call c k)) =
        (warned_about_no_search_nodes c \<or>
         call_search_only k \<and> search_only_nodes (call_manager k) = [])
   \<and> logged (run_calls Client_init ks) =
        (if \<exists>k' \<in> set ks. call_search_only k' \<and> search_only_nodes (call_manager k') = []
         then [no_search_nodes_warning] else [])
   \<and> count_list (logged (run_calls Client_init ks)) no_search_nodes_warning \<le> 1
   \<and> ((\<forall>k' \<in> set pre. \<not> (call_search_only k' \<and> search_only_nodes (call_manager k') = [])) \<and>
       call_search_only k \<and> search_only_nodes (call_manager k) = [] \<longrightarrow>
         logged (run_calls Client_init pre) = [] \<and>
         logged (run_calls Client_init (pre @ [k])) = [no_search_nodes_warning] \<and>
         logged (run_calls Client_init (pre @ k # post)) = [no_search_nodes_warning])"
proof (intro conjI impI)
  let ?xs = "available_nodes (call_manager k)"
  {
    assume h: "call_search_only k \<and> search_only_nodes (call_manager k) = [] \<and> ?xs \<noteq> []"
    {
      assume n: "call_node k = None"
      from h show "?xs ! (call_draw k mod length ?xs) \<in> set ?xs" by simp
      from h n show "fst (run_call c k) =
          Node_get_tracks (call_http k) (?xs ! (call_draw k mod length ?xs))
            (call_query k) (call_first k)"
        by (simp add: run_call_def Client_get_tracks_def select_pool_def random_choice_def Let_def)
    }
    {
      assume n: "call_node k = Some n'"
      from h n show "fst (run_call c k) =
          Node_get_tracks (call_http k) n' (call_query k) (call_first k)"
        by (simp add: run_call_def Client_get_tracks_def select_pool_def Let_def)
    }
  }
  show "logged (snd (run_call c k)) =
      (if call_search_only k \<and> search_only_nodes (call_manager k) = [] \<and>
          \<not> warned_about_no_search_nodes c
       then logged c @ [no_search_nodes_warning] else logged c)"
    by (simp add: snd_run_call)
  show "warned_about_no_search_nodes (snd (run_call c k)) =
      (warned_about_no_search_nodes c \<or>
       call_search_only k \<and> search_only_nodes (call_manager k) = [])"
    by (auto simp: snd_run_call)
  show l: "logged (run_calls Client_init ks) =
      (if \<exists>k' \<in> set ks. call_search_only k' \<and> search_only_nodes (call_manager k') = []
       then [no_search_nodes_warning] else [])"
    by (rule logged_run_calls)
  show "count_list (logged (run_calls Client_init ks)) no_search_nodes_warning \<le> 1"
    unfolding l by simp
  {
    assume h: "(\<forall>k' \<in> set pre. \<not> (call_search_only k' \<and> search_only_nodes (call_manager k') = [])) \<and>
       call_search_only k \<and> search_only_nodes (call_manager k) = []"
    then show "logged (run_calls Client_init pre) = []"
      by (simp add: logged_run_calls)
    from h show "logged (run_calls Client_init (pre @ [k])) = [no_search_nodes_warning]"
      by (simp add: logged_run_calls)
    from h show "logged (run_calls Client_init (pre @ k # post)) = [no_search_nodes_warning]"
      by (simp add: logged_run_calls)
  }
qed

theorem no_search_nodes_warning_once_witness:
  "fst (run_call Client_init example_fallback_call) = Inr (JObj [(''tracks'', JArr [JStr ''a''])])
   \<and> logged (snd (run_call Client_init example_fallback_call)) = [no_search_nodes_warning]
   \<and> logged (run_calls Client_init
        [example_fallback_call, example_fallback_call, example_fallback_call])
      = [no_search_nodes_warning]"
proof -
  let ?k = example_fallback_call
  have h: "call_search_only ?k \<and> search_only_nodes (call_manager ?k) = [] \<and>
      available_nodes (call_manager ?k) \<noteq> []" and n: "call_node ?k = None"
    by (simp_all add: example_fallback_call_def)
  have p: "(\<forall>k' \<in> set []. \<not> (call_search_only k' \<and> search_only_nodes (call_manager k') = [])) \<and>
      call_search_only ?k \<and> search_only_nodes (call_manager ?k) = []"
    using h by simp
  note t = no_search_nodes_warning_once [of ?k Client_init _ "[?k, ?k, ?k]" "[]" "[?k, ?k]"]
  have "fst (run_call Client_init ?k) =
      Node_get_tracks (call_http ?k)
        (available_nodes (call_manager ?k) ! (call_draw ?k mod length (available_nodes (call_manager ?k))))
        (call_query ?k) (call_first ?k)"
    using t h n by blast
  then have "fst (run_call Client_init ?k) = Inr (JObj [(''tracks'', JArr [JStr ''a''])])"
    by (simp add: example_fallback_call_def Node_get_tracks_def answer_def)
  moreover have "logged (snd (run_call Client_init ?k)) =
      (if call_search_only ?k \<and> search_only_nodes (call_manager ?k) = [] \<and>
          \<not> warned_about_no_search_nodes Client_init
       then logged Client_init @ [no_search_nodes_warning] else logged Client_init)"
    using t by blast
  then have "logged (snd (run_call Client_init ?k)) = [no_search_nodes_warning]"
    using h by (simp add: Client_init_def)
  moreover have "logged (run_calls Client_init ([] @ ?k # [?k, ?k])) = [no_search_nodes_warning]"
    using t p by blast
  ultimately show ?thesis by simp
qed

text \<open>
  Three ways in which the behaviour is not the one first stated. A call that finds both
  pools empty logs the warning and raises, so that the first call that does fall back
  to general nodes logs nothing. A second client object, writing to the same log, warns
  again. A node that is passed answers the query although it is neither connected nor
  among the available nodes, and its answer is not the answer of a general node.
\<close>

theorem warning_not_tied_to_first_fallback:
  "fst (run_call Client_init empty_pools_call) = Inl (NodeException ''No available nodes!'')
   \<and> logged (snd (run_call Client_init empty_pools_call)) = [no_search_nodes_warning]
   \<and> logged (snd (run_call (snd (run_call Client_init empty_pools_call)) example_fallback_call))
       = logged (snd (run_call Client_init empty_pools_call))
   \<and> logged (snd (run_call
        (Client_init\<lparr> logged := logged (snd (run_call Client_init example_fallback_call)) \<rparr>)
        example_fallback_call))
       = [no_search_nodes_warning, no_search_nodes_warning]
   \<and> fst (run_call Client_init stray_node_call) =
       Node_get_tracks echo_url stray_node ''query'' False
   \<and> stray_node \<notin> set (available_nodes (call_manager stray_node_call))
   \<and> \<not> available stray_node
   \<and> Node_get_tracks echo_url stray_node ''query'' False \<noteq>
       Node_get_tracks echo_url (connect_node example_node) ''query'' False
   \<and> Node_get_tracks echo_url stray_node ''query'' False \<noteq>
       Node_get_tracks echo_url (connect_node second_node) ''query'' False"
proof (intro conjI)
  show "fst (run_call Client_init empty_pools_call) = Inl (NodeException ''No available nodes!'')"
    by (simp add: run_call_def Client_get_tracks_def select_pool_def empty_pools_call_def
        no_nodes_def Let_def)
  show e: "logged (snd (run_call Client_init empty_pools_call)) = [no_search_nodes_warning]"
    by (simp add: snd_run_call empty_pools_call_def no_nodes_def Client_init_def)
  show "logged (snd (run_call (snd (run_call Client_init empty_pools_call)) example_fallback_call))
       = logged (snd (run_call Client_init empty_pools_call))"
    by (simp add: snd_run_call empty_pools_call_def no_nodes_def Client_init_def
        example_fallback_call_def)
  show "logged (snd (run_call
        (Client_init\<lparr> logged := logged (snd (run_call Client_init example_fallback_call)) \<rparr>)
        example_fallback_call))
       = [no_search_nodes_warning, no_search_nodes_warning]"
    by (simp add: snd_run_call Client_init_def example_fallback_call_def)
  show "fst (run_call Client_init stray_node_call) =
       Node_get_tracks echo_url stray_node ''query'' False"
    by (simp add: run_call_def Client_get_tracks_def select_pool_def stray_node_call_def Let_def)
  show "stray_node \<notin> set (available_nodes (call_manager stray_node_call))"
    by (simp add: stray_node_call_def stray_node_def example_node_def second_node_def
        connect_node_def Node_init_def)
  show "\<not> available stray_node"
    by (simp add: available_def stray_node_def Node_init_def)
  show "Node_get_tracks echo_url stray_node ''query'' False \<noteq>
       Node_get_tracks echo_url (connect_node example_node) ''query'' False"
    by (simp add: Node_get_tracks_def echo_url_def loadtracks_request_def destination_def
        connection_protocol_def stray_node_def example_node_def connect_node_def Node_init_def)
  show "Node_get_tracks echo_url stray_node ''query'' False \<noteq>
       Node_get_tracks echo_url (connect_node second_node) ''query'' False"
    by (simp add: Node_get_tracks_def echo_url_def loadtracks_request_def destination_def
        connection_protocol_def stray_node_def second_node_def connect_node_def Node_init_def)
qed

text \<open>
  C3. With no available node (and, when search-only nodes are asked for, no search-only
  node either), \<open>get_tracks\<close>, \<open>decode_track\<close> and \<open>decode_tracks\<close> raise an
  exception of the class \<open>NodeException\<close>, with the message \<open>No available nodes!\<close>,
  and not one of the class \<open>NoNodeAvailable\<close>.
\<close>

theorem empty_pool_raises_NodeException:
  "fst (Client_get_tracks (answer 200 JNull) 0 no_nodes Client_init ''query'' None False False)
     = Inl (NodeException ''No available nodes!'')
   \<and> fst (Client_get_tracks (answer 200 JNull) 0 no_nodes Client_init ''query'' None True False)
     = Inl (NodeException ''No available nodes!'')
   \<and> Client_decode_track (answer 200 JNull) 0 no_nodes ''QAAA'' None
     = Inl (NodeException ''No available nodes!'')
   \<and> Client_decode_tracks (answer 200 JNull) 0 no_nodes [''QAAA''] None
     = Inl (NodeException ''No available nodes!'')
   \<and> NodeException ''No available nodes!'' \<noteq> NoNodeAvailable ''No available nodes!''"
  by (simp add: Client_get_tracks_def select_pool_def Client_decode_track_def
      Client_decode_tracks_def no_nodes_def Let_def)

text \<open>Running the wrapper tasks of a list of hooks, whatever the order.\<close>

lemma mset_remove_nth:
  "i < length xs \<Longrightarrow> mset (take i xs @ drop (Suc i) xs) + {# xs ! i #} = mset xs"
proof -
  assume "i < length xs"
  then have "xs = take i xs @ xs ! i # drop (Suc i) xs"
    by (simp add: id_take_nth_drop)
  then have "mset xs = mset (take i xs @ xs ! i # drop (Suc i) xs)" by simp
  then show ?thesis by simp
qed






text \<open>Every order of the hooks is the order of some \<open>picks\<close>.\<close>

lemma every_order_is_picked: "mset ys = mset xs \<Longrightarrow> \<exists>picks. run_order picks xs = ys"
proof (induction ys arbitrary: xs)
  case Nil
  then show ?case by (simp add: run_order.simps)
next
  case (Cons y ys)
  then have "y \<in> set xs" by (metis list.set_intros(1) set_mset_mset)
  then obtain i where i: "i < length xs" "xs ! i = y" by (auto simp: in_set_conv_nth)
  let ?rest = "take i xs @ drop (Suc i) xs"
  have "mset ?rest + {# y #} = mset ys + {# y #}"
    using mset_remove_nth [OF i(1)] i(2) Cons.prems by simp
  then have "mset ys = mset ?rest" by simp
  then obtain picks where p: "run_order picks ?rest = ys" using Cons.IH by blast
  have "run_order (i # picks) xs = y # ys"
    using i p by (subst run_order.simps) (auto simp: Let_def)
  then show ?case by blast
qed




text \<open>
  C5. When the manager holds a player for the guild of the requested channel:
  if the player is in that channel, \<open>create\<close> returns the same player object and
  changes nothing (no entry of the registry, no player, no voice connection, no event),
  and so does every later call; if the player is in another channel, \<open>create\<close> calls
  the player's \<open>move_to\<close> for the requested channel and returns the same player
  object, without constructing a player, connecting or dispatching an event, and the
  registry is as before.
\<close>

theorem create_existing_player:
  "pm_players m (vc_guild_id ch) = Some p \<longrightarrow>
     (vc_id ch = channel_id (heap m p) \<longrightarrow>
        create env m ch ep nd sd rq = (Inr p, m) \<and>
        create env (snd (create env m ch ep nd sd rq)) ch ep nd sd rq = (Inr p, m))
     \<and> (vc_id ch \<noteq> channel_id (heap m p) \<and> move_to env rq ch sd (heap m p) = Inr pl \<longrightarrow>
        create env m ch ep nd sd rq =
          (Inr p, m\<lparr> heap := (heap m)(p := pl),
                     effects := effects m @ [MoveTo p rq ch sd] \<rparr>))"
  by (simp add: create_def push_def Let_def)

theorem create_existing_player_witness:
  "create example_collaborators (one_player (Some 0)) lounge None None False None
     = (Inr 0, one_player (Some 0))
   \<and> fst (create example_collaborators (one_player (Some 0)) stage None None False None) = Inr 0
   \<and> effects (snd (create example_collaborators (one_player (Some 0)) stage None None False None))
     = [MoveTo 0 None stage False]
   \<and> pm_players (snd (create example_collaborators (one_player (Some 0)) stage None None False None))
     = pm_players (one_player (Some 0))"
proof -
  let ?m = "one_player (Some 0)"
  have h: "pm_players ?m (vc_guild_id lounge) = Some 0" "pm_players ?m (vc_guild_id stage) = Some 0"
    by (simp_all add: one_player_def lounge_def stage_def)
  have same: "vc_id lounge = channel_id (heap ?m 0)"
    by (simp add: one_player_def lounge_def)
  have other: "vc_id stage \<noteq> channel_id (heap ?m 0) \<and>
      move_to example_collaborators None stage False (heap ?m 0) =
        Inr \<lparr> guild_id = 7, channel_id = 12, node = Some 0 \<rparr>"
    by (simp add: one_player_def stage_def example_collaborators_def)
  have "create example_collaborators ?m lounge None None False None = (Inr 0, ?m)"
    using create_existing_player [of ?m lounge 0 example_collaborators None None False None]
      h(1) same by blast
  moreover have "create example_collaborators ?m stage None None False None =
      (Inr 0, ?m\<lparr> heap := (heap ?m)(0 := \<lparr> guild_id = 7, channel_id = 12, node = Some 0 \<rparr>),
                 effects := effects ?m @ [MoveTo 0 None stage False] \<rparr>)"
    using create_existing_player [of ?m stage 0 example_collaborators None None False None
        "\<lparr> guild_id = 7, channel_id = 12, node = Some 0 \<rparr>"]
      h(2) other by blast
  ultimately show ?thesis by (simp add: one_player_def)
qed

text \<open>
  C10. For a guild whose player has no node, \<open>destroy\<close> raises \<open>AttributeError\<close>
  (from \<open>player.node.name\<close> in the logging call) after it has removed the player from
  the registry: the manager that the exception leaves behind no longer holds the
  player. For a guild with no player, \<open>destroy\<close> returns and leaves the manager as it
  was.
\<close>

theorem destroy_not_atomic:
  "(pm_players m g = Some r \<and> node (heap m r) = None \<longrightarrow>
      destroy env m g rq = (Inl AttributeError, m\<lparr> pm_players := (pm_players m)(g := None) \<rparr>) \<and>
      pm_players (snd (destroy env m g rq)) g = None \<and>
      snd (destroy env m g rq) \<noteq> m)
   \<and> (pm_players m g = None \<longrightarrow> destroy env m g rq = (Inr (), m))"
proof (intro conjI impI)
  assume h: "pm_players m g = Some r \<and> node (heap m r) = None"
  then show d: "destroy env m g rq =
      (Inl AttributeError, m\<lparr> pm_players := (pm_players m)(g := None) \<rparr>)"
    by (simp add: destroy_def log_destroyed_def Let_def)
  then show n: "pm_players (snd (destroy env m g rq)) g = None" by simp
  from h n show "snd (destroy env m g rq) \<noteq> m" by auto
next
  assume "pm_players m g = None"
  then show "destroy env m g rq = (Inr (), m)" by (simp add: destroy_def)
qed

theorem destroy_not_atomic_witness:
  "fst (destroy example_collaborators (one_player None) 7 None) = Inl AttributeError
   \<and> pm_players (snd (destroy example_collaborators (one_player None) 7 None)) 7 = None
   \<and> pm_players (one_player None) 7 = Some 0
   \<and> destroy example_collaborators (one_player None) 8 None = (Inr (), one_player None)"
proof -
  let ?m = "one_player None"
  have h: "pm_players ?m 7 = Some 0 \<and> node (heap ?m 0) = None" "pm_players ?m 8 = None"
    by (simp_all add: one_player_def)
  note t = destroy_not_atomic [of ?m 7 0 example_collaborators None]
  have "destroy example_collaborators ?m 7 None =
      (Inl AttributeError, ?m\<lparr> pm_players := (pm_players ?m)(7 := None) \<rparr>)"
    using t h(1) by blast
  moreover have "destroy example_collaborators ?m 8 None = (Inr (), ?m)"
    using destroy_not_atomic [of ?m 8 0 example_collaborators None] h(2) by blast
  ultimately show ?thesis using h(1) by simp
qed

text \<open>A session that never connects uses up its attempts and stops.\<close>

lemma reconnect_loop_exhausts:
  "attempts s \<le> n \<Longrightarrow>
   reconnect_loop (\<lambda>_. False) (int n) s =
     Some (s\<lparr> session_status := Disconnected, terminal := True, attempts := n,
              connect_steps := connect_steps s + (n - attempts s),
              emitted := emitted s @ [''NodeDisconnected''] \<rparr>)"
proof (induction "n - attempts s" arbitrary: s)
  case 0
  then have "attempts s = n" by simp
  then show ?case by (subst reconnect_loop.simps) simp
next
  case (Suc d)
  let ?s = "s\<lparr> session_status := Reconnecting, attempts := Suc (attempts s),
               connect_steps := Suc (connect_steps s) \<rparr>"
  from Suc.hyps(2) have lt: "attempts s < n" by simp
  then have d: "d = n - attempts ?s" and le: "attempts ?s \<le> n" using Suc.hyps(2) by simp_all
  have "reconnect_loop (\<lambda>_. False) (int n) s = reconnect_loop (\<lambda>_. False) (int n) ?s"
    using lt by (subst reconnect_loop.simps) simp
  also have "\<dots> = Some (?s\<lparr> session_status := Disconnected, terminal := True, attempts := n,
              connect_steps := connect_steps ?s + (n - attempts ?s),
              emitted := emitted ?s @ [''NodeDisconnected''] \<rparr>)"
    by (rule Suc.hyps(1) [OF d le])
  finally show ?case using lt by simp
qed

text \<open>
  C8. A node constructed with \<open>reconnect_attempts = 3\<close> hands the cap \<open>3\<close> to its
  websocket. When no connect step ever succeeds, the reconnect loop of a session that
  lost its connection returns after exactly three connect steps (no fourth is made),
  with the session disconnected for good and one node-disconnected event emitted; for
  every cap \<open>n\<close> it returns so after exactly \<open>n\<close> connect steps.
\<close>

theorem reconnect_attempts_exhausted:
  "ws_reconnect_attempts (ws (Node_init h pw rg rk rt pt nm 3 sl so)) = 3
   \<and> reconnect_loop (\<lambda>_. False)
       (ws_reconnect_attempts (ws (Node_init h pw rg rk rt pt nm 3 sl so))) (lost_session k evs) =
     Some \<lparr> session_status = Disconnected, terminal = True, attempts = 3,
            connect_steps = k + 3, emitted = evs @ [''NodeDisconnected''] \<rparr>
   \<and> reconnect_loop (\<lambda>_. False) (int n) (lost_session k evs) =
     Some \<lparr> session_status = Disconnected, terminal = True, attempts = n,
            connect_steps = k + n, emitted = evs @ [''NodeDisconnected''] \<rparr>"
proof -
  have cap: "ws_reconnect_attempts (ws (Node_init h pw rg rk rt pt nm 3 sl so)) = 3"
    by (simp add: Node_init_def Let_def)
  have gen: "reconnect_loop (\<lambda>_. False) (int n') (lost_session k evs) =
     Some \<lparr> session_status = Disconnected, terminal = True, attempts = n',
            connect_steps = k + n', emitted = evs @ [''NodeDisconnected''] \<rparr>" for n'
    using reconnect_loop_exhausts [of "lost_session k evs" n'] by (simp add: lost_session_def)
  show ?thesis using cap gen [of 3] gen [of n] by simp
qed

theorem reconnect_attempts_exhausted_witness:
  "reconnect_loop (\<lambda>_. False) (ws_reconnect_attempts (ws example_node)) (lost_session 0 []) =
     Some \<lparr> session_status = Disconnected, terminal = True, attempts = 3,
            connect_steps = 3, emitted = [''NodeDisconnected''] \<rparr>"
  using reconnect_attempts_exhausted
    [of "''lava.example''" "''youshallnotpass''" "''eu''" None 60 "Some 2333" None False False 0 "[]" 3]
  by (simp add: example_node_def)

end
